theory Spec2Isabelle
  imports Complex_Main "HOL-Library.Word"
begin

section \<open>Errors\<close>

text \<open>
  The TypeScript sources raise plain \<^verbatim>\<open>Error\<close> objects that differ only in their
  message. Each throw site gets its own constructor here:
  \<^item> \<open>InputNotSpecified\<close> and \<open>OutputFormatRequired\<close> are the two throws of
    \<^verbatim>\<open>FfmpegCommand.buildArgs\<close> (the design document calls both a ConfigurationError);
  \<^item> \<open>FailedToSpawn\<close>, \<open>ExitedWithCode\<close> and \<open>ProcessError\<close> are the three rejections
    of \<^verbatim>\<open>FfmpegX.execute\<close>;
  \<^item> \<open>NotInitialized\<close> is the throw of \<^verbatim>\<open>VideoFrameExtractor.validateInitialized\<close>;
  \<^item> \<open>CallbackError\<close> stands for whatever a caller-supplied configuration callback throws.
\<close>

datatype error =
    InputNotSpecified
  | OutputFormatRequired
  | FailedToSpawn
  | ExitedWithCode "int option"
  | ProcessError string
  | NotInitialized
  | CallbackError string

definition isConfigurationError :: "error \<Rightarrow> bool" where
  "isConfigurationError e = (e = InputNotSpecified \<or> e = OutputFormatRequired)"

section \<open>The command model (FfmpegCommand.ts)\<close>

text \<open>
  The five private fields of the class. \<^verbatim>\<open>string | null\<close> is \<open>string option\<close>.
\<close>

record FfmpegCommand =
  globalArgs :: "string list"
  inputArgs :: "string list"
  outputArgs :: "string list"
  inputFile :: "string option"
  outputFile :: "string option"

definition newCommand :: FfmpegCommand where
  "newCommand = \<lparr>globalArgs = [], inputArgs = [], outputArgs = [],
                  inputFile = None, outputFile = None\<rparr>"

text \<open>
  JavaScript truthiness of a \<^verbatim>\<open>string | null\<close>: \<^verbatim>\<open>null\<close> and the empty string are falsy.
\<close>

definition truthy :: "string option \<Rightarrow> bool" where
  "truthy v = (case v of None \<Rightarrow> False | Some s \<Rightarrow> s \<noteq> [])"

subsection \<open>Operators\<close>

text \<open>
  The raw operators push the key and then, when a value is given, \<^verbatim>\<open>String(value)\<close>.
  The optional value is passed here in its string form, so \<^verbatim>\<open>String\<close> is the identity.
\<close>

definition input :: "string \<Rightarrow> FfmpegCommand \<Rightarrow> FfmpegCommand" where
  "input file c = c\<lparr>inputFile := Some file\<rparr>"

definition output_op :: "string \<Rightarrow> FfmpegCommand \<Rightarrow> FfmpegCommand" where
  \<comment> \<open>the operator \<^verbatim>\<open>output\<close>\<close>
  "output_op file c = c\<lparr>outputFile := Some file\<rparr>"

definition pushOption :: "string \<Rightarrow> string option \<Rightarrow> string list \<Rightarrow> string list" where
  "pushOption key val args =
     (case val of None \<Rightarrow> args @ [key] | Some v \<Rightarrow> (args @ [key]) @ [v])"

definition addGlobalOption :: "string \<Rightarrow> string option \<Rightarrow> FfmpegCommand \<Rightarrow> FfmpegCommand" where
  "addGlobalOption key val c = c\<lparr>globalArgs := pushOption key val (globalArgs c)\<rparr>"

definition addInputOption :: "string \<Rightarrow> string option \<Rightarrow> FfmpegCommand \<Rightarrow> FfmpegCommand" where
  "addInputOption key val c = c\<lparr>inputArgs := pushOption key val (inputArgs c)\<rparr>"

definition addOutputOption :: "string \<Rightarrow> string option \<Rightarrow> FfmpegCommand \<Rightarrow> FfmpegCommand" where
  "addOutputOption key val c = c\<lparr>outputArgs := pushOption key val (outputArgs c)\<rparr>"

definition outputFormat :: "string \<Rightarrow> FfmpegCommand \<Rightarrow> FfmpegCommand" where
  "outputFormat format c = addOutputOption ''-f'' (Some format) c"

definition overwrite :: "FfmpegCommand \<Rightarrow> FfmpegCommand" where
  "overwrite c = addGlobalOption ''-y'' None c"

definition seekInput :: "string \<Rightarrow> FfmpegCommand \<Rightarrow> FfmpegCommand" where
  "seekInput timestamp c = addInputOption ''-ss'' (Some timestamp) c"

subsection \<open>Rendering\<close>

text \<open>
  \<^verbatim>\<open>this.outputArgs.some((arg, i) => arg === "-f" && i < this.outputArgs.length - 1)\<close>:
  some element equal to \<^verbatim>\<open>-f\<close> stands at an index below \<^verbatim>\<open>length - 1\<close>. The
  subtraction is on integers (\<^verbatim>\<open>length - 1\<close> is \<open>-1\<close> for the empty list).
\<close>

definition hasFormat :: "string list \<Rightarrow> bool" where
  "hasFormat args =
     list_ex (\<lambda>(arg, i). arg = ''-f'' \<and> int i < int (length args) - 1)
       (zip args [0..<length args])"

definition buildArgs :: "FfmpegCommand \<Rightarrow> error + string list" where
  "buildArgs c =
     (if \<not> truthy (inputFile c) then Inl InputNotSpecified
      else
        let finalArgs = globalArgs c @ inputArgs c @ [''-i'', the (inputFile c)] @ outputArgs c
        in if truthy (outputFile c) then Inr (finalArgs @ [the (outputFile c)])
           else if \<not> hasFormat (outputArgs c) then Inl OutputFormatRequired
           else Inr (finalArgs @ [''pipe:1'']))"

definition finalArgs :: "FfmpegCommand \<Rightarrow> error + string list" where
  "finalArgs c = buildArgs c"

section \<open>The frame sampler (VideoFrameExtractor)\<close>

text \<open>
  JavaScript numbers are IEEE doubles. This development reads them as exact rationals:
  the rounding of doubles and the values \<^verbatim>\<open>NaN\<close> and \<^verbatim>\<open>Infinity\<close> are not represented. The
  total frame count and the frame indices are integers (\<^verbatim>\<open>initialize\<close> stores the result of
  \<^verbatim>\<open>parseInt\<close> or \<^verbatim>\<open>Math.floor\<close>, and every index is the result of \<^verbatim>\<open>Math.floor\<close>).

  A quotient by zero is \<open>0\<close> in HOL and \<^verbatim>\<open>NaN\<close> or an infinity in the source. In
  \<open>calculateFrameIndices\<close> the divisor \<^verbatim>\<open>framesToExtract\<close> is zero only when the total frame
  count is zero, and then the loop does not run; the divisor \<^verbatim>\<open>fps\<close> of the option is not
  zero in its branch. The target time of a frame divides by the source rate, and the facts
  about it assume that rate is not zero.
\<close>

record FfprobeStream =
  index :: int
  codec_type :: string
  avg_frame_rate :: string
  r_frame_rate :: "string option"
  nb_frames :: "string option"

record FfprobeFormat =
  filename :: string
  duration :: "string option"

record FfprobeData =
  streams :: "FfprobeStream list"
  format :: FfprobeFormat

record ExtractFramesOptions =
  totalFrames_opt :: "rat option"   \<comment> \<open>\<^verbatim>\<open>totalFrames?: number\<close>\<close>
  fps_opt :: "rat option"           \<comment> \<open>\<^verbatim>\<open>fps?: number\<close>\<close>

record VideoFrameExtractor =
  videoPath :: string
  videoInfo :: "FfprobeData option"
  videoStream :: "FfprobeStream option"
  totalFrames :: int
  fps :: rat
  keyframeIntervalSeconds :: rat

definition newExtractor :: "string \<Rightarrow> VideoFrameExtractor" where
  \<comment> \<open>the field initialisers of the class\<close>
  "newExtractor path = \<lparr>videoPath = path, videoInfo = None, videoStream = None,
                          totalFrames = 0, fps = 0, keyframeIntervalSeconds = 5\<rparr>"

definition validateInitialized :: "VideoFrameExtractor \<Rightarrow> error + unit" where
  "validateInitialized e =
     (if videoInfo e = None \<or> videoStream e = None \<or> totalFrames e = 0
      then Inl NotInitialized else Inr ())"

definition validateOptions :: "ExtractFramesOptions \<Rightarrow> error + unit" where
  \<comment> \<open>the body is empty in the source\<close>
  "validateOptions options = Inr ()"

text \<open>Truthiness of a \<^verbatim>\<open>number | undefined\<close>: \<^verbatim>\<open>undefined\<close> and \<open>0\<close> are falsy.\<close>

definition truthyNum :: "rat option \<Rightarrow> bool" where
  "truthyNum v = (case v of None \<Rightarrow> False | Some x \<Rightarrow> x \<noteq> 0)"

text \<open>
  \<^verbatim>\<open>[...new Set(frameIndices)]\<close>: a \<^verbatim>\<open>Set\<close> keeps each value once, in the order of first
  insertion.
\<close>

definition setAdd :: "'a list \<Rightarrow> 'a \<Rightarrow> 'a list" where
  "setAdd s x = (if x \<in> set s then s else s @ [x])"

definition newSet :: "'a list \<Rightarrow> 'a list" where
  "newSet xs = foldl setAdd [] xs"

text \<open>
  The loop of the branch by total count:
  \<^verbatim>\<open>for (let i = 0; i < framesToExtract; i++) frameIndices.push(Math.floor(i * interval + interval / 2))\<close>.
\<close>

function totalLoop :: "rat \<Rightarrow> rat \<Rightarrow> nat \<Rightarrow> int list \<Rightarrow> int list" where
  "totalLoop framesToExtract interval i frameIndices =
     (if of_nat i < framesToExtract
      then totalLoop framesToExtract interval (i + 1)
             (frameIndices @ [\<lfloor>of_nat i * interval + interval / 2\<rfloor>])
      else frameIndices)"
  by pat_completeness auto
termination
proof (relation "measure (\<lambda>(framesToExtract, interval, i, frameIndices). nat \<lceil>framesToExtract\<rceil> - i)")
  show "wf (measure (\<lambda>(framesToExtract, interval, i, frameIndices). nat \<lceil>framesToExtract\<rceil> - i))"
    by simp
next
  fix framesToExtract interval :: rat and i :: nat and frameIndices :: "int list"
  assume "of_nat i < framesToExtract"
  then have "int i < \<lceil>framesToExtract\<rceil>"
    by (simp add: less_ceiling_iff)
  then show "((framesToExtract, interval, i + 1,
               frameIndices @ [\<lfloor>of_nat i * interval + interval / 2\<rfloor>]),
              (framesToExtract, interval, i, frameIndices))
             \<in> measure (\<lambda>(framesToExtract, interval, i, frameIndices). nat \<lceil>framesToExtract\<rceil> - i)"
    by simp
qed

text \<open>
  The loop of the branch by rate:
  \<^verbatim>\<open>for (let i = 0; i * interval < this.totalFrames; i++) frameIndices.push(Math.floor(i * interval))\<close>.
  It does not end when \<^verbatim>\<open>interval\<close> is zero or negative and the total is positive, so its
  model is partial: \<open>None\<close> is the loop that never ends.
\<close>

partial_function (option) rateLoop :: "rat \<Rightarrow> rat \<Rightarrow> nat \<Rightarrow> int list \<Rightarrow> int list option" where
  "rateLoop total_frames interval i frameIndices =
     (if of_nat i * interval < total_frames
      then rateLoop total_frames interval (i + 1) (frameIndices @ [\<lfloor>of_nat i * interval\<rfloor>])
      else Some frameIndices)"

declare rateLoop.simps [code]

definition calculateFrameIndices ::
  "VideoFrameExtractor \<Rightarrow> ExtractFramesOptions \<Rightarrow> int list option" where
  "calculateFrameIndices e options =
     (if truthyNum (totalFrames_opt options) then
        let framesToExtract = min (the (totalFrames_opt options)) (of_int (totalFrames e));
            interval = of_int (totalFrames e) / framesToExtract
        in Some (newSet (totalLoop framesToExtract interval 0 []))
      else if truthyNum (fps_opt options) then
        let interval = fps e / the (fps_opt options)
        in map_option newSet (rateLoop (of_int (totalFrames e)) interval 0 [])
      else Some (newSet []))"

text \<open>
  The two seek positions of one frame, as \<^verbatim>\<open>extract\<close> computes them from the frame's
  target time and the extractor's keyframe-interval estimate.
\<close>

definition targetTimestamp :: "VideoFrameExtractor \<Rightarrow> int \<Rightarrow> rat" where
  "targetTimestamp e frameIndex = of_int frameIndex / fps e"

definition coarseSeekTime :: "rat \<Rightarrow> rat \<Rightarrow> rat" where
  "coarseSeekTime targetTime keyframeInterval = max 0 (targetTime - keyframeInterval)"

definition preciseSeekOffset :: "rat \<Rightarrow> rat \<Rightarrow> rat" where
  "preciseSeekOffset targetTime coarse = targetTime - coarse"

text \<open>
  An extractor as \<^verbatim>\<open>initialize\<close> leaves it for a 20-frame video at 30 frames per second
  (keyframe-interval estimate \<open>max 2 (250 / 30)\<close>); the examples below use it.
\<close>

definition demoStream :: FfprobeStream where
  "demoStream = \<lparr>index = 0, codec_type = ''video'', avg_frame_rate = ''30/1'',
                  r_frame_rate = Some ''30/1'', nb_frames = Some ''20''\<rparr>"

definition demoExtractor :: VideoFrameExtractor where
  "demoExtractor =
     \<lparr>videoPath = ''input3.mp4'',
      videoInfo = Some \<lparr>streams = [demoStream],
                        format = \<lparr>filename = ''input3.mp4'', duration = None\<rparr>\<rparr>,
      videoStream = Some demoStream,
      totalFrames = 20, fps = 30, keyframeIntervalSeconds = 25 / 3\<rparr>"

section \<open>The process runner (execute.ts)\<close>

subsection \<open>Strings and numbers of the host language\<close>

text \<open>
  Strings are lists of characters. The white space that \<^verbatim>\<open>trim\<close>, \<^verbatim>\<open>parseInt\<close> and
  \<^verbatim>\<open>parseFloat\<close> strip is the ASCII part of JavaScript's: tab, line feed, vertical tab, form
  feed, carriage return and space.
\<close>

definition isWhiteSpace :: "char \<Rightarrow> bool" where
  "isWhiteSpace c = (c \<in> set [CHR 0x09, CHR 0x0A, CHR 0x0B, CHR 0x0C, CHR 0x0D, CHR 0x20])"

definition isDigit :: "char \<Rightarrow> bool" where
  "isDigit c = (48 \<le> (of_char c :: nat) \<and> (of_char c :: nat) \<le> 57)"

definition trim :: "string \<Rightarrow> string" where
  "trim s = rev (dropWhile isWhiteSpace (rev (dropWhile isWhiteSpace s)))"

definition startsWith :: "string \<Rightarrow> string \<Rightarrow> bool" where
  \<comment> \<open>\<^verbatim>\<open>s.startsWith(p)\<close>\<close>
  "startsWith p s = (take (length p) s = p)"

text \<open>
  \<^verbatim>\<open>s.split(sep)\<close> for a separator of one character: every occurrence separates, so two
  separators in a row give an empty piece, and the empty string gives one empty piece.
\<close>

fun splitOn :: "char \<Rightarrow> string \<Rightarrow> string list" where
  "splitOn sep [] = [[]]"
| "splitOn sep (c # cs) =
     (if c = sep then [] # splitOn sep cs
      else (case splitOn sep cs of
              [] \<Rightarrow> [[c]]
            | w # ws \<Rightarrow> (c # w) # ws))"

text \<open>\<^verbatim>\<open>s.split(/\r\n|\n|\r/)\<close>: at a carriage return, the alternative \<^verbatim>\<open>\r\n\<close> is tried first.\<close>

fun splitLines :: "string \<Rightarrow> string list" where
  "splitLines [] = [[]]"
| "splitLines (c # cs) =
     (if c = CHR 0x0D then
        (case cs of
           [] \<Rightarrow> [] # splitLines cs
         | d # ds \<Rightarrow> if d = CHR 0x0A then [] # splitLines ds else [] # splitLines cs)
      else if c = CHR 0x0A then [] # splitLines cs
      else (case splitLines cs of
              [] \<Rightarrow> [[c]]
            | w # ws \<Rightarrow> (c # w) # ws))"

fun joinWith :: "string \<Rightarrow> string list \<Rightarrow> string" where
  \<comment> \<open>\<^verbatim>\<open>xs.join(sep)\<close>\<close>
  "joinWith sep [] = []"
| "joinWith sep [x] = x"
| "joinWith sep (x # y # ys) = x @ sep @ joinWith sep (y # ys)"

text \<open>
  The results of \<^verbatim>\<open>parseInt\<close> and \<^verbatim>\<open>parseFloat\<close>. A finite number is the exact value of
  the decimal literal that was read (the double nearest to it, in the source); the two
  zeros are one, and a literal too large for a double is not turned into an infinity.
\<close>

datatype number = NaN | PosInfinity | NegInfinity | Num rat

definition digitsValue :: "string \<Rightarrow> nat" where
  "digitsValue ds = foldl (\<lambda>a c. 10 * a + (of_char c - 48)) 0 ds"

definition stripSign :: "string \<Rightarrow> rat \<times> string" where
  "stripSign s =
     (case s of
        [] \<Rightarrow> (1, s)
      | c # r \<Rightarrow> if c = CHR ''-'' then (- 1, r) else if c = CHR ''+'' then (1, r) else (1, s))"

definition parseInt :: "string \<Rightarrow> number" where
  \<comment> \<open>\<^verbatim>\<open>parseInt(s, 10)\<close>\<close>
  "parseInt s =
     (let (sgn, u) = stripSign (dropWhile isWhiteSpace s);
          z = takeWhile isDigit u
      in if z = [] then NaN else Num (sgn * of_nat (digitsValue z)))"

definition exponentFactor :: "string \<Rightarrow> rat" where
  \<comment> \<open>the optional exponent part \<^verbatim>\<open>e\<close> or \<^verbatim>\<open>E\<close>, sign, digits; ignored when it has no digit\<close>
  "exponentFactor s =
     (case s of
        [] \<Rightarrow> 1
      | c # r \<Rightarrow>
          if c = CHR ''e'' \<or> c = CHR ''E'' then
            (let (esgn, d) = stripSign r; ds = takeWhile isDigit d
             in if ds = [] then 1
                else if esgn < 0 then 1 / 10 ^ digitsValue ds else 10 ^ digitsValue ds)
          else 1)"

definition parseFloat :: "string \<Rightarrow> number" where
  "parseFloat s =
     (let (sgn, u) = stripSign (dropWhile isWhiteSpace s)
      in if startsWith ''Infinity'' u then (if sgn < 0 then NegInfinity else PosInfinity)
         else
           let intDigits = takeWhile isDigit u;
               afterInt = dropWhile isDigit u;
               (fracDigits, afterFrac) =
                 (case afterInt of
                    [] \<Rightarrow> ([], afterInt)
                  | c # r \<Rightarrow> if c = CHR ''.'' then (takeWhile isDigit r, dropWhile isDigit r)
                             else ([], afterInt))
           in if intDigits = [] \<and> fracDigits = [] then NaN
              else Num (sgn * (of_nat (digitsValue intDigits)
                               + of_nat (digitsValue fracDigits) / 10 ^ length fracDigits)
                        * exponentFactor afterFrac))"

subsection \<open>Progress lines\<close>

text \<open>The interface \<^verbatim>\<open>ProgressData\<close> of types.ts; an absent optional field is \<open>None\<close>.\<close>

record ProgressData =
  progress_frame :: "number option"
  progress_fps :: "number option"
  progress_q :: "number option"
  progress_size :: "string option"
  progress_time :: "string option"
  progress_bitrate :: "string option"
  progress_speed :: "string option"
  progress_raw :: string

text \<open>
  One round of the loop over the items: \<^verbatim>\<open>const [key, value] = item.split("=", 2)\<close>, then
  the \<^verbatim>\<open>switch\<close> on the trimmed key. Every item contains \<^verbatim>\<open>=\<close>, so the split has two pieces;
  the last case of the model is never reached from \<open>parseProgress\<close>.
\<close>

definition assignItem :: "ProgressData \<Rightarrow> string \<Rightarrow> ProgressData" where
  "assignItem progress item =
     (case take 2 (splitOn CHR ''='' item) of
        key # value # _ \<Rightarrow>
          (let trimmedKey = trim key; trimmedValue = trim value
           in if trimmedKey = ''frame'' then progress\<lparr>progress_frame := Some (parseInt trimmedValue)\<rparr>
              else if trimmedKey = ''fps'' then progress\<lparr>progress_fps := Some (parseFloat trimmedValue)\<rparr>
              else if trimmedKey = ''q'' then progress\<lparr>progress_q := Some (parseFloat trimmedValue)\<rparr>
              else if trimmedKey = ''size'' then progress\<lparr>progress_size := Some trimmedValue\<rparr>
              else if trimmedKey = ''time'' then progress\<lparr>progress_time := Some trimmedValue\<rparr>
              else if trimmedKey = ''bitrate'' then progress\<lparr>progress_bitrate := Some trimmedValue\<rparr>
              else if trimmedKey = ''speed'' then progress\<lparr>progress_speed := Some trimmedValue\<rparr>
              else progress)
      | _ \<Rightarrow> progress)"

definition parseProgress :: "string \<Rightarrow> ProgressData option" where
  "parseProgress line =
     (if \<not> startsWith ''frame='' line then None
      else
        let progress = \<lparr>progress_frame = None, progress_fps = None, progress_q = None,
                        progress_size = None, progress_time = None, progress_bitrate = None,
                        progress_speed = None, progress_raw = line\<rparr>;
            items = filter (\<lambda>item. CHR ''='' \<in> set item) (splitOn CHR '' '' line);
            progress = foldl assignItem progress items
        in if truthy (progress_time progress) then Some progress else None)"

subsection \<open>Running the subprocess\<close>

text \<open>
  A \<^verbatim>\<open>Buffer\<close> is a list of bytes. \<^verbatim>\<open>FfmpegXResult\<close> is the interface of types.ts.
\<close>

type_synonym buffer = "8 word list"

record FfmpegXResult =
  result_stderr :: string
  result_output :: "buffer option"

record FfmpegX =
  resolvedFfmpegPath :: string
  resolvedFfprobePath :: string

text \<open>
  What the child process delivers to the handlers that \<^verbatim>\<open>execute\<close> registers: a chunk on
  stdout, a chunk on stderr (already decoded by \<^verbatim>\<open>chunk.toString()\<close>), \<^verbatim>\<open>close\<close> with the exit
  code (\<^verbatim>\<open>null\<close> when a signal ended the process), or \<^verbatim>\<open>error\<close>.
\<close>

datatype child_event =
    StdoutData buffer
  | StderrData string
  | Close "int option"
  | ChildError string

text \<open>The notifications that \<^verbatim>\<open>execute\<close> emits, with their arguments.\<close>

datatype notification =
    Start string
  | StderrLine string
  | Progress ProgressData
  | End FfmpegXResult
  | ErrorEvent error string

text \<open>
  The state of one call of \<^verbatim>\<open>execute\<close>: its three local variables, the notifications
  emitted so far, and the state of the returned promise (\<open>None\<close> while it is pending,
  \<open>Inr\<close> once resolved, \<open>Inl\<close> once rejected).
\<close>

record exec_state =
  stdoutChunks :: "buffer list"
  stderr :: string
  stderrBuffer :: string
  emitted :: "notification list"
  promise :: "(error + FfmpegXResult) option"

definition emit :: "notification \<Rightarrow> exec_state \<Rightarrow> exec_state" where
  "emit n s = s\<lparr>emitted := emitted s @ [n]\<rparr>"

text \<open>A promise is settled once: a later \<^verbatim>\<open>resolve\<close> or \<^verbatim>\<open>reject\<close> has no effect.\<close>

definition settle :: "error + FfmpegXResult \<Rightarrow> exec_state \<Rightarrow> exec_state" where
  "settle v s = (case promise s of None \<Rightarrow> s\<lparr>promise := Some v\<rparr> | Some _ \<Rightarrow> s)"

definition emitLine :: "exec_state \<Rightarrow> string \<Rightarrow> exec_state" where
  \<comment> \<open>the body of the loop over the completed lines\<close>
  "emitLine s line =
     (let s1 = emit (StderrLine line) s
      in case parseProgress line of
           Some progress \<Rightarrow> emit (Progress progress) s1
         | None \<Rightarrow> s1)"

definition onStderrData :: "string \<Rightarrow> exec_state \<Rightarrow> exec_state" where
  "onStderrData chunkStr s =
     (let s1 = s\<lparr>stderr := stderr s @ chunkStr, stderrBuffer := stderrBuffer s @ chunkStr\<rparr>;
          lines = splitLines (stderrBuffer s1);
          s2 = s1\<lparr>stderrBuffer := (if lines = [] then [] else last lines)\<rparr>
      in foldl emitLine s2 (butlast lines))"

definition onClose :: "int option \<Rightarrow> exec_state \<Rightarrow> exec_state" where
  "onClose code s =
     (if code = Some 0 then
        let outputBuffer = concat (stdoutChunks s);
            result = \<lparr>result_stderr = stderr s,
                      result_output = (if length outputBuffer > 0 then Some outputBuffer else None)\<rparr>
        in settle (Inr result) (emit (End result) s)
      else
        let err = ExitedWithCode code
        in settle (Inl err) (emit (ErrorEvent err (stderr s)) s))"

definition handleEvent :: "exec_state \<Rightarrow> child_event \<Rightarrow> exec_state" where
  "handleEvent s ev =
     (case ev of
        StdoutData chunk \<Rightarrow> s\<lparr>stdoutChunks := stdoutChunks s @ [chunk]\<rparr>
      | StderrData chunkStr \<Rightarrow> onStderrData chunkStr s
      | Close code \<Rightarrow> onClose code s
      | ChildError msg \<Rightarrow> settle (Inl (ProcessError msg)) (emit (ErrorEvent (ProcessError msg) (stderr s)) s))"

text \<open>
  \<^verbatim>\<open>execute\<close>, called on the rendered arguments. The last argument is what \<^verbatim>\<open>spawn\<close> gives: \<open>None\<close> for a falsy handle,
  else the events that the child then delivers, in order.
\<close>

definition execute :: "FfmpegX \<Rightarrow> string list \<Rightarrow> child_event list option \<Rightarrow> exec_state" where
  "execute x args spawned =
     (let command = resolvedFfmpegPath x @ '' '' @ joinWith '' '' args;
          s0 = emit (Start command)
                 \<lparr>stdoutChunks = [], stderr = [], stderrBuffer = [], emitted = [], promise = None\<rparr>
      in case spawned of
           None \<Rightarrow> settle (Inl FailedToSpawn) s0
         | Some events \<Rightarrow> foldl handleEvent s0 events)"

text \<open>What a sequence of child events wrote to stdout and to stderr.\<close>

definition stdoutOf :: "child_event list \<Rightarrow> buffer" where
  "stdoutOf events = concat (map (\<lambda>ev. case ev of StdoutData chunk \<Rightarrow> chunk | _ \<Rightarrow> []) events)"

definition stderrOf :: "child_event list \<Rightarrow> string" where
  "stderrOf events = concat (map (\<lambda>ev. case ev of StderrData chunkStr \<Rightarrow> chunkStr | _ \<Rightarrow> []) events)"

definition isData :: "child_event \<Rightarrow> bool" where
  "isData ev = (case ev of StdoutData _ \<Rightarrow> True | StderrData _ \<Rightarrow> True | _ \<Rightarrow> False)"

definition isEnd :: "notification \<Rightarrow> bool" where
  "isEnd n = (case n of End _ \<Rightarrow> True | _ \<Rightarrow> False)"

definition isErrorEvent :: "notification \<Rightarrow> bool" where
  "isErrorEvent n = (case n of ErrorEvent _ _ \<Rightarrow> True | _ \<Rightarrow> False)"

text \<open>The two notifications that end an execution.\<close>

definition terminal :: "notification \<Rightarrow> bool" where
  "terminal n = (isEnd n \<or> isErrorEvent n)"

subsection \<open>The orchestrator (executeFfmpeg)\<close>

text \<open>
  \<^verbatim>\<open>executeFfmpeg\<close> calls the configuration callback on a fresh command, renders it and
  awaits \<^verbatim>\<open>execute\<close>. The callback returns the configured command, or what it throws.
  \<open>spawn\<close> is the host: the child events for a rendered argument list. The result is the
  settlement of the awaited promise, \<open>None\<close> when it stays pending.
\<close>

definition executeFfmpeg ::
  "FfmpegX \<Rightarrow> (string list \<Rightarrow> child_event list option) \<Rightarrow>
   (FfmpegCommand \<Rightarrow> error + FfmpegCommand) \<Rightarrow> (error + FfmpegXResult) option" where
  "executeFfmpeg x spawn fn =
     (case fn newCommand of
        Inl err \<Rightarrow> Some (Inl err)
      | Inr cmd \<Rightarrow>
          (case finalArgs cmd of
             Inl err \<Rightarrow> Some (Inl err)
           | Inr args \<Rightarrow> promise (execute x args (spawn args))))"

section \<open>Frame extraction (VideoFrameExtractor.extract)\<close>

text \<open>
  The configuration callback of one frame. \<open>toFixed6\<close> is the host's
  \<^verbatim>\<open>Number.prototype.toFixed(6)\<close>; the numbers \<open>1\<close> and \<open>2\<close> are passed as \<^verbatim>\<open>String\<close> prints them.
\<close>

definition frameCommand ::
  "(rat \<Rightarrow> string) \<Rightarrow> VideoFrameExtractor \<Rightarrow> int \<Rightarrow> FfmpegCommand \<Rightarrow> error + FfmpegCommand" where
  "frameCommand toFixed6 e frameIndex cmd =
     (let targetTime = targetTimestamp e frameIndex;
          coarse = coarseSeekTime targetTime (keyframeIntervalSeconds e);
          precise = preciseSeekOffset targetTime coarse;
          c1 = addInputOption ''-ss'' (Some (toFixed6 coarse)) cmd;
          c2 = input (videoPath e) c1;
          c3 = addOutputOption ''-ss'' (Some (toFixed6 precise)) c2;
          c4 = addOutputOption ''-vframes'' (Some ''1'') c3;
          c5 = addOutputOption ''-q:v'' (Some ''2'') c4
      in Inr (outputFormat ''image2pipe'' c5))"

text \<open>
  The \<^verbatim>\<open>.then\<close> and \<^verbatim>\<open>.catch\<close> handlers of one frame: a result with a non-empty output gives
  that buffer, any other result and any failure give \<^verbatim>\<open>null\<close>.
\<close>

definition frameSlot :: "error + FfmpegXResult \<Rightarrow> buffer option" where
  "frameSlot settled =
     (case settled of
        Inr result \<Rightarrow>
          (case result_output result of
             Some out \<Rightarrow> if length out > 0 then Some out else None
           | None \<Rightarrow> None)
      | Inl err \<Rightarrow> None)"

text \<open>
  \<^verbatim>\<open>extract\<close>. \<open>spawn i\<close> is the host for the subprocess of the \<open>i\<close>-th dispatched frame.
  \<^verbatim>\<open>Promise.all\<close> settles when every frame's promise has settled, with their values in the
  order of dispatch; \<open>None\<close> is a call that never returns.
\<close>

definition extract_frames ::
  "FfmpegX \<Rightarrow> (rat \<Rightarrow> string) \<Rightarrow> (nat \<Rightarrow> string list \<Rightarrow> child_event list option) \<Rightarrow>
   VideoFrameExtractor \<Rightarrow> ExtractFramesOptions \<Rightarrow> (error + buffer list) option" where
  \<comment> \<open>the method \<^verbatim>\<open>extract\<close>\<close>
  "extract_frames x toFixed6 spawn e options =
     (case validateInitialized e of
        Inl err \<Rightarrow> Some (Inl err)
      | Inr _ \<Rightarrow>
     (case validateOptions options of
        Inl err \<Rightarrow> Some (Inl err)
      | Inr _ \<Rightarrow>
     (case calculateFrameIndices e options of
        None \<Rightarrow> None
      | Some frameIndices \<Rightarrow>
          let extractionPromises =
                map (\<lambda>(frameIndex, i).
                       map_option frameSlot
                         (executeFfmpeg x (spawn i) (frameCommand toFixed6 e frameIndex)))
                  (zip frameIndices [0..<length frameIndices])
          in if list_all (\<lambda>p. p \<noteq> None) extractionPromises
             then let frameBuffers = map the extractionPromises
                  in Some (Inr (map the (filter (\<lambda>buffer. buffer \<noteq> None) frameBuffers)))
             else None)))"

section \<open>Facts about rendering\<close>

lemma hasFormat_nth:
  "hasFormat args = (\<exists>i. i + 1 < length args \<and> args ! i = ''-f'')"
proof
  assume "hasFormat args"
  then obtain a i where m: "(a, i) \<in> set (zip args [0..<length args])"
    and a: "a = ''-f''" and i: "int i < int (length args) - 1"
    unfolding hasFormat_def list_ex_iff by auto
  from m obtain j where "j < length args" "a = args ! j" "i = [0..<length args] ! j"
    by (auto simp: set_zip)
  with a i show "\<exists>i. i + 1 < length args \<and> args ! i = ''-f''"
    by (intro exI [of _ j]) auto
next
  assume "\<exists>i. i + 1 < length args \<and> args ! i = ''-f''"
  then obtain i where i: "i + 1 < length args" and f: "args ! i = ''-f''"
    by blast
  then have "(args ! i, i) \<in> set (zip args [0..<length args])"
    by (auto simp: set_zip intro!: exI [of _ i])
  with i f show "hasFormat args"
    unfolding hasFormat_def list_ex_iff by force
qed

lemma hasFormat_butlast: "hasFormat args = (''-f'' \<in> set (butlast args))"
proof -
  have "(\<exists>i. i + 1 < length args \<and> args ! i = ''-f'')
        = (\<exists>i<length (butlast args). butlast args ! i = ''-f'')"
  proof
    assume "\<exists>i. i + 1 < length args \<and> args ! i = ''-f''"
    then obtain i where "i + 1 < length args" "args ! i = ''-f''" by blast
    then have "i < length (butlast args) \<and> butlast args ! i = ''-f''"
      by (simp add: nth_butlast)
    then show "\<exists>i<length (butlast args). butlast args ! i = ''-f''" by blast
  next
    assume "\<exists>i<length (butlast args). butlast args ! i = ''-f''"
    then obtain i where "i < length (butlast args)" "butlast args ! i = ''-f''" by blast
    then have "i + 1 < length args \<and> args ! i = ''-f''"
      by (simp add: nth_butlast)
    then show "\<exists>i. i + 1 < length args \<and> args ! i = ''-f''" by blast
  qed
  also have "\<dots> = (''-f'' \<in> set (butlast args))"
    by (auto simp: in_set_conv_nth)
  finally show ?thesis
    by (simp add: hasFormat_nth)
qed

lemma truthy_iff: "truthy v = (v \<noteq> None \<and> v \<noteq> Some [])"
  by (cases v) (simp_all add: truthy_def)

lemma buildArgs_cases:
  "buildArgs c =
     (case inputFile c of
        None \<Rightarrow> Inl InputNotSpecified
      | Some inp \<Rightarrow>
          if inp = [] then Inl InputNotSpecified
          else (case outputFile c of
                  None \<Rightarrow>
                    if hasFormat (outputArgs c)
                    then Inr (globalArgs c @ inputArgs c @ [''-i'', inp] @ outputArgs c @ [''pipe:1''])
                    else Inl OutputFormatRequired
                | Some out \<Rightarrow>
                    if out = []
                    then if hasFormat (outputArgs c)
                         then Inr (globalArgs c @ inputArgs c @ [''-i'', inp] @ outputArgs c @ [''pipe:1''])
                         else Inl OutputFormatRequired
                    else Inr (globalArgs c @ inputArgs c @ [''-i'', inp] @ outputArgs c @ [out])))"
  by (simp add: buildArgs_def truthy_def Let_def split: option.splits)

subsection \<open>C1: when rendering fails\<close>

text \<open>
  C1, as stated: rendering fails with a ConfigurationError when the input file is unset, and
  when the input file is set, the output file is unset and the output arguments hold no
  format-selection flag; no other configuration makes rendering fail.

  The last part does not hold. A command whose only output argument is \<^verbatim>\<open>-f\<close> has the
  flag in its output arguments and an input file, and rendering fails; a command whose
  input file was set to the empty string has an input file, and rendering fails.
\<close>

theorem C1_counterexample:
  "buildArgs \<lparr>globalArgs = [], inputArgs = [], outputArgs = [''-f''],
              inputFile = Some ''in.mp4'', outputFile = None\<rparr> = Inl OutputFormatRequired
   \<and> ''-f'' \<in> set [''-f'']
   \<and> buildArgs \<lparr>globalArgs = [], inputArgs = [], outputArgs = [''-f'', ''mp4''],
                inputFile = Some [], outputFile = Some ''out.mp4''\<rparr> = Inl InputNotSpecified"
  by (simp add: buildArgs_def truthy_def hasFormat_def)

text \<open>
  C1, amended: rendering fails, and then with a ConfigurationError, exactly when the input
  file is null or the empty string, or the output file is null or the empty string and
  \<^verbatim>\<open>-f\<close> does not occur in the output arguments before their last element.
\<close>

theorem C1_render_fails_iff:
  "isl (buildArgs c) =
     (inputFile c \<in> {None, Some []} \<or>
      (outputFile c \<in> {None, Some []} \<and> ''-f'' \<notin> set (butlast (outputArgs c))))
   \<and> isl (buildArgs c) = (\<exists>e. buildArgs c = Inl e \<and> isConfigurationError e)"
  by (auto simp: buildArgs_cases hasFormat_butlast isConfigurationError_def
      split: option.splits)

theorem C1_render_fails_iff_witness:
  "isl (buildArgs (input ''in.mp4'' newCommand))
   \<and> \<not> isl (buildArgs (outputFormat ''mp4'' (input ''in.mp4'' newCommand)))"
  using C1_render_fails_iff [of "input ''in.mp4'' newCommand"]
    C1_render_fails_iff [of "outputFormat ''mp4'' (input ''in.mp4'' newCommand)"]
  by (simp add: input_def newCommand_def outputFormat_def addOutputOption_def pushOption_def)

subsection \<open>C2: what rendering returns\<close>

text \<open>
  C2, as stated: whenever rendering succeeds it returns the global arguments, the input
  arguments, \<^verbatim>\<open>-i\<close> and the input path, the output arguments, and then the output path if
  one is set, else \<^verbatim>\<open>pipe:1\<close>.

  An output file set to the empty string is falsy for \<^verbatim>\<open>if (this.outputFile)\<close>: the
  rendered list then ends in \<^verbatim>\<open>pipe:1\<close> and not in the (empty) output path.
\<close>

theorem C2_counterexample:
  "buildArgs \<lparr>globalArgs = [], inputArgs = [], outputArgs = [''-f'', ''mp4''],
              inputFile = Some ''in.mp4'', outputFile = Some []\<rparr>
     = Inr [''-i'', ''in.mp4'', ''-f'', ''mp4'', ''pipe:1'']
   \<and> buildArgs \<lparr>globalArgs = [], inputArgs = [], outputArgs = [''-f'', ''mp4''],
              inputFile = Some ''in.mp4'', outputFile = Some []\<rparr>
     \<noteq> Inr ([] @ [] @ [''-i'', ''in.mp4''] @ [''-f'', ''mp4''] @ [the (Some [])])"
  by (simp add: buildArgs_def truthy_def hasFormat_def)

text \<open>
  C2, amended: whenever rendering succeeds, the input file is a non-empty string and the
  result is exactly the global arguments, the input arguments, \<^verbatim>\<open>-i\<close> and the input path,
  the output arguments, and then the output path if it is set to a non-empty string, else
  (null or empty) \<^verbatim>\<open>pipe:1\<close>. In particular, after \<^verbatim>\<open>input("in.mp4")\<close>,
  \<^verbatim>\<open>addOutputOption("-vframes", 1)\<close> and \<^verbatim>\<open>outputFormat("image2pipe")\<close> on a command with no
  other output arguments and no output file, the result ends in
  \<^verbatim>\<open>-i in.mp4 -vframes 1 -f image2pipe pipe:1\<close>.
\<close>

theorem C2_render_result:
  "(buildArgs c = Inr args \<longrightarrow>
      (\<exists>inp. inputFile c = Some inp \<and> inp \<noteq> [] \<and>
         args = globalArgs c @ inputArgs c @ [''-i'', inp] @ outputArgs c @
                [case outputFile c of
                   None \<Rightarrow> ''pipe:1''
                 | Some out \<Rightarrow> if out = [] then ''pipe:1'' else out]))
   \<and> (outputArgs c0 = [] \<and> outputFile c0 = None \<longrightarrow>
        buildArgs (outputFormat ''image2pipe''
                    (addOutputOption ''-vframes'' (Some ''1'') (input ''in.mp4'' c0)))
          = Inr ((globalArgs c0 @ inputArgs c0) @
                 [''-i'', ''in.mp4'', ''-vframes'', ''1'', ''-f'', ''image2pipe'', ''pipe:1'']))"
proof (intro conjI impI)
  assume "buildArgs c = Inr args"
  then show "\<exists>inp. inputFile c = Some inp \<and> inp \<noteq> [] \<and>
         args = globalArgs c @ inputArgs c @ [''-i'', inp] @ outputArgs c @
                [case outputFile c of
                   None \<Rightarrow> ''pipe:1''
                 | Some out \<Rightarrow> if out = [] then ''pipe:1'' else out]"
    by (auto simp: buildArgs_cases split: option.splits if_splits)
next
  assume a: "outputArgs c0 = [] \<and> outputFile c0 = None"
  let ?c = "outputFormat ''image2pipe''
              (addOutputOption ''-vframes'' (Some ''1'') (input ''in.mp4'' c0))"
  have o: "outputArgs ?c = [''-vframes'', ''1'', ''-f'', ''image2pipe'']"
    using a by (simp add: outputFormat_def addOutputOption_def pushOption_def input_def)
  have f: "outputFile ?c = None" "inputFile ?c = Some ''in.mp4''"
    "globalArgs ?c = globalArgs c0" "inputArgs ?c = inputArgs c0"
    using a by (simp_all add: outputFormat_def addOutputOption_def input_def)
  have h: "hasFormat [''-vframes'', ''1'', ''-f'', ''image2pipe'']"
    by (simp add: hasFormat_butlast)
  show "buildArgs ?c
          = Inr ((globalArgs c0 @ inputArgs c0) @
                 [''-i'', ''in.mp4'', ''-vframes'', ''1'', ''-f'', ''image2pipe'', ''pipe:1''])"
    unfolding buildArgs_cases o f using h by simp
qed

theorem C2_render_result_witness:
  "buildArgs (outputFormat ''image2pipe''
      (addOutputOption ''-vframes'' (Some ''1'') (input ''in.mp4'' (overwrite newCommand))))
     = Inr [''-y'', ''-i'', ''in.mp4'', ''-vframes'', ''1'', ''-f'', ''image2pipe'', ''pipe:1'']
   \<and> buildArgs (output_op ''out.mp4'' (input ''in.mp4'' newCommand))
     = Inr [''-i'', ''in.mp4'', ''out.mp4'']"
proof -
  have a: "outputArgs (overwrite newCommand) = [] \<and> outputFile (overwrite newCommand) = None"
    by (simp add: overwrite_def addGlobalOption_def newCommand_def)
  have b: "buildArgs (output_op ''out.mp4'' (input ''in.mp4'' newCommand))
             = Inr [''-i'', ''in.mp4'', ''out.mp4'']"
    by (simp add: buildArgs_def truthy_def output_op_def input_def newCommand_def)
  from C2_render_result [of "output_op ''out.mp4'' (input ''in.mp4'' newCommand)"
      "[''-i'', ''in.mp4'', ''out.mp4'']" "overwrite newCommand"] a b
  show ?thesis
    by (simp add: overwrite_def addGlobalOption_def pushOption_def newCommand_def)
qed

subsection \<open>C9: a trailing format flag does not count\<close>

text \<open>
  C9: with an input file set and no output file set, when \<^verbatim>\<open>-f\<close> occurs in the output
  arguments only as their last element, rendering fails with a ConfigurationError (the
  one of the missing output format, when the input path is not empty) and \<^verbatim>\<open>pipe:1\<close> is not
  appended.
\<close>

theorem C9_trailing_format_flag:
  assumes "inputFile c = Some inp" and "outputFile c = None"
    and "outputArgs c = xs @ [''-f'']" and "''-f'' \<notin> set xs"
  shows "(\<exists>e. buildArgs c = Inl e \<and> isConfigurationError e)
         \<and> (inp \<noteq> [] \<longrightarrow> buildArgs c = Inl OutputFormatRequired)"
  using assms
  by (simp add: buildArgs_cases hasFormat_butlast isConfigurationError_def)

theorem C9_trailing_format_flag_witness:
  "buildArgs \<lparr>globalArgs = [], inputArgs = [], outputArgs = [''-vframes'', ''1'', ''-f''],
              inputFile = Some ''in.mp4'', outputFile = None\<rparr> = Inl OutputFormatRequired"
proof -
  let ?c = "\<lparr>globalArgs = [], inputArgs = [], outputArgs = [''-vframes'', ''1'', ''-f''],
              inputFile = Some ''in.mp4'', outputFile = None\<rparr>"
  have "inputFile ?c = Some ''in.mp4''" "outputFile ?c = None"
    "outputArgs ?c = [''-vframes'', ''1''] @ [''-f'']" "''-f'' \<notin> set [''-vframes'', ''1'']"
    by simp_all
  from C9_trailing_format_flag [OF this] show ?thesis
    by simp
qed

section \<open>Facts about the frame sampler\<close>

declare totalLoop.simps [simp del]

lemma foldl_setAdd_set: "set (foldl setAdd acc xs) = set acc \<union> set xs"
  by (induction xs arbitrary: acc) (auto simp: setAdd_def)

lemma foldl_setAdd_distinct: "distinct acc \<Longrightarrow> distinct (foldl setAdd acc xs)"
  by (induction xs arbitrary: acc) (auto simp: setAdd_def)

lemma foldl_setAdd_fresh:
  "distinct (acc @ xs) \<Longrightarrow> foldl setAdd acc xs = acc @ xs"
  by (induction xs arbitrary: acc) (auto simp: setAdd_def)

lemma foldl_setAdd_length: "length (foldl setAdd acc xs) \<le> length acc + length xs"
proof (induction xs arbitrary: acc)
  case Nil
  show ?case by simp
next
  case (Cons x xs)
  have "length (foldl setAdd (setAdd acc x) xs) \<le> length (setAdd acc x) + length xs"
    by (rule Cons.IH)
  also have "length (setAdd acc x) \<le> length acc + 1"
    by (simp add: setAdd_def)
  finally show ?case by simp
qed

lemma newSet_set: "set (newSet xs) = set xs"
  by (simp add: newSet_def foldl_setAdd_set)

lemma newSet_distinct: "distinct (newSet xs)"
  by (simp add: newSet_def foldl_setAdd_distinct)

lemma newSet_id: "distinct xs \<Longrightarrow> newSet xs = xs"
  using foldl_setAdd_fresh [of "[]" xs] by (simp add: newSet_def)

lemma newSet_length: "length (newSet xs) \<le> length xs"
  using foldl_setAdd_length [of "[]" xs] by (simp add: newSet_def)

lemma totalLoop_map:
  "totalLoop framesToExtract interval i frameIndices =
     frameIndices @ map (\<lambda>j. \<lfloor>of_nat j * interval + interval / 2\<rfloor>) [i..<nat \<lceil>framesToExtract\<rceil>]"
proof (induction framesToExtract interval i frameIndices rule: totalLoop.induct)
  case (1 framesToExtract interval i frameIndices)
  show ?case
  proof (cases "of_nat i < framesToExtract")
    case True
    then have "int i < \<lceil>framesToExtract\<rceil>"
      by (simp add: less_ceiling_iff)
    then have lt: "i < nat \<lceil>framesToExtract\<rceil>"
      by linarith
    have "totalLoop framesToExtract interval i frameIndices =
            totalLoop framesToExtract interval (i + 1)
              (frameIndices @ [\<lfloor>of_nat i * interval + interval / 2\<rfloor>])"
      using True by (subst totalLoop.simps) simp
    also have "\<dots> = (frameIndices @ [\<lfloor>of_nat i * interval + interval / 2\<rfloor>]) @
        map (\<lambda>j. \<lfloor>of_nat j * interval + interval / 2\<rfloor>) [i + 1..<nat \<lceil>framesToExtract\<rceil>]"
      using "1.IH" [OF True] .
    finally show ?thesis
      using lt by (simp add: upt_conv_Cons)
  next
    case False
    then have "\<not> int i < \<lceil>framesToExtract\<rceil>"
      by (simp add: less_ceiling_iff)
    then have "nat \<lceil>framesToExtract\<rceil> \<le> i"
      by linarith
    then show ?thesis
      using False by (subst totalLoop.simps) simp
  qed
qed





lemma calculate_by_total:
  assumes "x \<noteq> 0"
  shows "calculateFrameIndices e \<lparr>totalFrames_opt = Some x, fps_opt = F\<rparr> =
           Some (newSet (map (\<lambda>i. \<lfloor>of_nat i * (of_int (totalFrames e) / min x (of_int (totalFrames e)))
                                     + of_int (totalFrames e) / min x (of_int (totalFrames e)) / 2\<rfloor>)
                          [0..<nat \<lceil>min x (of_int (totalFrames e))\<rceil>]))"
  using assms
  by (simp only: calculateFrameIndices_def truthyNum_def Let_def totalLoop_map
      ExtractFramesOptions.simps option.case option.sel if_True not_False_eq_True append_Nil)



subsection \<open>C10: a request above the total is clamped\<close>

text \<open>
  C10: for a total frame count \<open>T > 0\<close> and a requested count \<open>n > T\<close>, sampling by total
  count returns the frame indices \<open>0, 1, \<dots>, T - 1\<close>, each once.
\<close>

theorem C10_total_count_clamped:
  assumes "0 < totalFrames e" and "of_int (totalFrames e) < n"
  shows "calculateFrameIndices e \<lparr>totalFrames_opt = Some n, fps_opt = None\<rparr>
           = Some (map int [0..<nat (totalFrames e)])
         \<and> set (map int [0..<nat (totalFrames e)]) = {0..<totalFrames e}
         \<and> distinct (map int [0..<nat (totalFrames e)])"
proof -
  let ?T = "totalFrames e"
  have n0: "n \<noteq> 0"
    using assms by auto
  have m: "min n (of_int ?T) = of_int ?T"
    using assms by simp
  have i1: "(of_int ?T :: rat) / of_int ?T = 1"
    using assms by simp
  have f: "(\<lambda>j::nat. \<lfloor>of_nat j * (1::rat) + 1 / 2\<rfloor>) = int"
  proof
    fix j :: nat
    show "\<lfloor>of_nat j * (1::rat) + 1 / 2\<rfloor> = int j"
      by (rule floor_unique) simp_all
  qed
  have d: "distinct (map int [0..<nat ?T])"
    by (simp add: distinct_map)
  have "calculateFrameIndices e \<lparr>totalFrames_opt = Some n, fps_opt = None\<rparr>
          = Some (newSet (map int [0..<nat ?T]))"
    unfolding calculate_by_total [OF n0] m i1 ceiling_of_int f ..
  moreover have "set (map int [0..<nat ?T]) = {0..<?T}"
  proof (intro set_eqI iffI)
    fix x assume "x \<in> set (map int [0..<nat ?T])"
    then show "x \<in> {0..<?T}" by auto
  next
    fix x assume "x \<in> {0..<?T}"
    then have "nat x \<in> set [0..<nat ?T]" "int (nat x) = x" by auto
    then show "x \<in> set (map int [0..<nat ?T])"
      by (metis image_eqI set_map)
  qed
  ultimately show ?thesis
    using d newSet_id [OF d] by simp
qed

theorem C10_total_count_clamped_witness:
  "calculateFrameIndices demoExtractor \<lparr>totalFrames_opt = Some 25, fps_opt = None\<rparr>
     = Some [0, 1, 2, 3, 4, 5, 6, 7, 8, 9, 10, 11, 12, 13, 14, 15, 16, 17, 18, 19]"
proof -
  have T: "totalFrames demoExtractor = 20"
    by (simp add: demoExtractor_def)
  have "0 < totalFrames demoExtractor" "of_int (totalFrames demoExtractor) < (25::rat)"
    by (simp_all add: T)
  from C10_total_count_clamped [OF this]
  have "calculateFrameIndices demoExtractor \<lparr>totalFrames_opt = Some 25, fps_opt = None\<rparr>
           = Some (map int [0..<nat (totalFrames demoExtractor)])"
    by blast
  moreover have "map int [0..<nat 20]
                   = [0, 1, 2, 3, 4, 5, 6, 7, 8, 9, 10, 11, 12, 13, 14, 15, 16, 17, 18, 19]"
    by code_simp
  ultimately show ?thesis
    unfolding T by simp
qed

subsection \<open>C5: sampling by total count, at most the total\<close>



lemma calculate_by_rate:
  assumes "f \<noteq> 0"
  shows "calculateFrameIndices e \<lparr>totalFrames_opt = None, fps_opt = Some f\<rparr> =
           map_option newSet (rateLoop (of_int (totalFrames e)) (fps e / f) 0 [])"
  using assms
  by (simp add: calculateFrameIndices_def truthyNum_def Let_def)

subsection \<open>C6: sampling by rate\<close>




lemma rateLoop_returns_only_if:
  assumes "rateLoop total_frames interval i frameIndices = Some r"
  shows "\<not> (interval \<le> 0 \<and> 0 < total_frames)"
proof (rule rateLoop.raw_induct
    [where P = "\<lambda>total_frames interval i frameIndices r. \<not> (interval \<le> 0 \<and> 0 < total_frames)",
     OF _ assms])
  fix loop :: "rat \<Rightarrow> rat \<Rightarrow> nat \<Rightarrow> int list \<Rightarrow> int list option"
  fix total_frames interval :: rat and i :: nat and frameIndices r :: "int list"
  assume ih: "\<And>total_frames interval i frameIndices r.
                 loop total_frames interval i frameIndices = Some r \<Longrightarrow>
                 \<not> (interval \<le> 0 \<and> 0 < total_frames)"
    and step: "(if of_nat i * interval < total_frames
                then loop total_frames interval (i + 1) (frameIndices @ [\<lfloor>of_nat i * interval\<rfloor>])
                else Some frameIndices) = Some r"
  show "\<not> (interval \<le> 0 \<and> 0 < total_frames)"
  proof
    assume a: "interval \<le> 0 \<and> 0 < total_frames"
    then have "of_nat i * interval \<le> 0"
      by (simp add: mult_nonneg_nonpos)
    with a have "of_nat i * interval < total_frames"
      by linarith
    with step have "loop total_frames interval (i + 1) (frameIndices @ [\<lfloor>of_nat i * interval\<rfloor>]) = Some r"
      by simp
    from ih [OF this] a show False
      by blast
  qed
qed

lemma rateLoop_never_returns:
  assumes "interval \<le> 0" and "0 < total_frames"
  shows "rateLoop total_frames interval i frameIndices = None"
proof (cases "rateLoop total_frames interval i frameIndices")
  case None
  then show ?thesis .
next
  case (Some r)
  from rateLoop_returns_only_if [OF this] assms show ?thesis
    by blast
qed

text \<open>
  When the source rate is zero (an average frame rate of \<^verbatim>\<open>0/1\<close> in the probe data) or
  negative, the interval is not positive and sampling by rate never returns.
\<close>

lemma rate_sampling_never_returns:
  assumes "fps e \<le> 0" and "0 < f" and "0 < totalFrames e"
  shows "calculateFrameIndices e \<lparr>totalFrames_opt = None, fps_opt = Some f\<rparr> = None"
proof -
  have "fps e / f \<le> 0"
    using assms by (simp add: divide_le_0_iff)
  moreover have "(0::rat) < of_int (totalFrames e)"
    using assms by simp
  ultimately have "rateLoop (of_int (totalFrames e)) (fps e / f) 0 [] = None"
    by (rule rateLoop_never_returns)
  moreover have "f \<noteq> 0"
    using assms by simp
  ultimately show ?thesis
    by (simp add: calculate_by_rate)
qed

subsection \<open>C7: the two seek positions\<close>

text \<open>
  C7: for a target time \<open>t\<close> and a keyframe-interval estimate \<open>k\<close>, the coarse seek time is
  \<open>max 0 (t - k)\<close> and the precise offset is \<open>t\<close> minus the coarse seek time, so that the two
  add up to \<open>t\<close>; for \<open>t = 10\<close> and \<open>k = 5\<close> they are 5 and 5, and for \<open>t = 2\<close> and \<open>k = 5\<close> the
  coarse seek time is clamped to 0 and the precise offset is 2. The configured command of a
  frame (for a non-zero source rate) carries the first as its input-side \<^verbatim>\<open>-ss\<close> and the
  second as its output-side \<^verbatim>\<open>-ss\<close>.
\<close>

theorem C7_seek_times:
  "coarseSeekTime t k = max 0 (t - k)
   \<and> preciseSeekOffset t (coarseSeekTime t k) = t - coarseSeekTime t k
   \<and> coarseSeekTime t k + preciseSeekOffset t (coarseSeekTime t k) = t
   \<and> coarseSeekTime 10 5 = 5 \<and> preciseSeekOffset 10 (coarseSeekTime 10 5) = 5
   \<and> coarseSeekTime 2 5 = 0 \<and> preciseSeekOffset 2 (coarseSeekTime 2 5) = 2
   \<and> (fps e \<noteq> 0 \<longrightarrow>
      frameCommand toFixed6 e frameIndex cmd =
       Inr (cmd\<lparr>inputArgs := inputArgs cmd @
                    [''-ss'', toFixed6 (coarseSeekTime (targetTimestamp e frameIndex)
                                          (keyframeIntervalSeconds e))],
                 inputFile := Some (videoPath e),
                 outputArgs := outputArgs cmd @
                    [''-ss'', toFixed6 (preciseSeekOffset (targetTimestamp e frameIndex)
                                (coarseSeekTime (targetTimestamp e frameIndex)
                                   (keyframeIntervalSeconds e))),
                     ''-vframes'', ''1'', ''-q:v'', ''2'', ''-f'', ''image2pipe'']\<rparr>))"
  by (simp add: coarseSeekTime_def preciseSeekOffset_def frameCommand_def Let_def
      addInputOption_def addOutputOption_def outputFormat_def input_def pushOption_def)

theorem C7_seek_times_witness:
  "coarseSeekTime (targetTimestamp demoExtractor 15) (keyframeIntervalSeconds demoExtractor) = 0
   \<and> preciseSeekOffset (targetTimestamp demoExtractor 15)
        (coarseSeekTime (targetTimestamp demoExtractor 15) (keyframeIntervalSeconds demoExtractor))
       = 1 / 2"
  using C7_seek_times [of "targetTimestamp demoExtractor 15"
      "keyframeIntervalSeconds demoExtractor" demoExtractor "\<lambda>r. []" 15 newCommand]
  by (simp add: targetTimestamp_def demoExtractor_def coarseSeekTime_def preciseSeekOffset_def)

section \<open>Facts about the process runner\<close>

lemma parseProgress_prefix:
  "\<not> startsWith ''frame='' line \<Longrightarrow> parseProgress line = None"
  by (simp add: parseProgress_def)

lemma assignItem_time:
  "progress_time (assignItem progress item) \<noteq> progress_time progress \<Longrightarrow>
     \<exists>key value rest. take 2 (splitOn CHR ''='' item) = key # value # rest \<and> trim key = ''time''"
  by (auto simp: assignItem_def Let_def split: list.splits if_splits)

lemma foldl_assignItem_time:
  "\<forall>item \<in> set items. \<forall>key value rest.
       take 2 (splitOn CHR ''='' item) = key # value # rest \<longrightarrow> trim key \<noteq> ''time''
   \<Longrightarrow> progress_time (foldl assignItem progress items) = progress_time progress"
proof (induction items arbitrary: progress)
  case Nil
  show ?case by simp
next
  case (Cons item items)
  have "progress_time (assignItem progress item) = progress_time progress"
    using Cons.prems assignItem_time [of progress item] by auto
  moreover have "progress_time (foldl assignItem (assignItem progress item) items)
                   = progress_time (assignItem progress item)"
    using Cons.prems by (intro Cons.IH) auto
  ultimately show ?case by simp
qed

lemma parseProgress_without_time:
  assumes "\<forall>item \<in> set (splitOn CHR '' '' line). \<forall>key value rest.
       take 2 (splitOn CHR ''='' item) = key # value # rest \<longrightarrow> trim key \<noteq> ''time''"
  shows "parseProgress line = None"
proof -
  have "progress_time (foldl assignItem
          \<lparr>progress_frame = None, progress_fps = None, progress_q = None,
           progress_size = None, progress_time = None, progress_bitrate = None,
           progress_speed = None, progress_raw = line\<rparr>
          (filter (\<lambda>item. CHR ''='' \<in> set item) (splitOn CHR '' '' line))) = None"
    using assms by (subst foldl_assignItem_time) auto
  then show ?thesis
    by (simp add: parseProgress_def Let_def truthy_def)
qed

lemma parseProgress_Some_time:
  "parseProgress line = Some progress \<Longrightarrow>
     startsWith ''frame='' line \<and> (\<exists>t. progress_time progress = Some t \<and> t \<noteq> [])
     \<and> progress_raw progress = line"
proof -
  have raw: "progress_raw (foldl assignItem p items) = progress_raw p" for p items
  proof (induction items arbitrary: p)
    case Nil
    show ?case by simp
  next
    case (Cons item items)
    have "progress_raw (assignItem p item) = progress_raw p"
      by (simp add: assignItem_def Let_def split: list.splits)
    with Cons.IH [of "assignItem p item"] show ?case by simp
  qed
  assume "parseProgress line = Some progress"
  then show ?thesis
    by (auto simp: parseProgress_def Let_def truthy_def raw split: if_splits option.splits)
qed

subsection \<open>C4: the padded progress line\<close>

text \<open>
  C4 says that the line
  \<^verbatim>\<open>frame=  120 fps=25.0 q=23.0 size=    256kB time=00:00:04.80 bitrate= 426.7kbits/s speed=0.98x\<close>
  parses to a sample with frame 120, fps 25.0 and time \<^verbatim>\<open>00:00:04.80\<close>. The line is split at
  every single space, so the padding after \<^verbatim>\<open>frame=\<close> separates the key from its number:
  the item is \<^verbatim>\<open>frame=\<close>, its value is empty, and \<^verbatim>\<open>parseInt("")\<close> is \<^verbatim>\<open>NaN\<close>. The sample
  has fps 25 and the time, but its frame is \<^verbatim>\<open>NaN\<close> (and its size and bitrate are empty).
\<close>

theorem C4_padded_frame_is_NaN:
  "parseProgress
     ''frame=  120 fps=25.0 q=23.0 size=    256kB time=00:00:04.80 bitrate= 426.7kbits/s speed=0.98x''
   = Some \<lparr>progress_frame = Some NaN, progress_fps = Some (Num 25), progress_q = Some (Num 23),
            progress_size = Some [], progress_time = Some ''00:00:04.80'',
            progress_bitrate = Some [], progress_speed = Some ''0.98x'',
            progress_raw =
              ''frame=  120 fps=25.0 q=23.0 size=    256kB time=00:00:04.80 bitrate= 426.7kbits/s speed=0.98x''\<rparr>"
  by code_simp

lemma emitLine_fields:
  "stdoutChunks (emitLine s line) = stdoutChunks s"
  "stderr (emitLine s line) = stderr s"
  "promise (emitLine s line) = promise s"
  "filter terminal (emitted (emitLine s line)) = filter terminal (emitted s)"
  by (simp_all add: emitLine_def emit_def Let_def terminal_def isEnd_def isErrorEvent_def
      split: option.splits)

lemma foldl_emitLine_fields:
  "stdoutChunks (foldl emitLine s lines) = stdoutChunks s
   \<and> stderr (foldl emitLine s lines) = stderr s
   \<and> promise (foldl emitLine s lines) = promise s
   \<and> filter terminal (emitted (foldl emitLine s lines)) = filter terminal (emitted s)"
  by (induction lines arbitrary: s) (simp_all add: emitLine_fields)

lemma onStderrData_fields:
  "stdoutChunks (onStderrData chunkStr s) = stdoutChunks s"
  "stderr (onStderrData chunkStr s) = stderr s @ chunkStr"
  "promise (onStderrData chunkStr s) = promise s"
  "filter terminal (emitted (onStderrData chunkStr s)) = filter terminal (emitted s)"
  by (simp_all add: onStderrData_def Let_def foldl_emitLine_fields)

lemma handleEvent_data:
  assumes "isData ev"
  shows "concat (stdoutChunks (handleEvent s ev)) = concat (stdoutChunks s) @ stdoutOf [ev]
   \<and> stderr (handleEvent s ev) = stderr s @ stderrOf [ev]
   \<and> promise (handleEvent s ev) = promise s
   \<and> filter terminal (emitted (handleEvent s ev)) = filter terminal (emitted s)"
  using assms
  by (cases ev)
     (simp_all add: handleEvent_def isData_def stdoutOf_def stderrOf_def onStderrData_fields)

lemma stdoutOf_Cons: "stdoutOf (ev # events) = stdoutOf [ev] @ stdoutOf events"
  by (simp add: stdoutOf_def)

lemma stderrOf_Cons: "stderrOf (ev # events) = stderrOf [ev] @ stderrOf events"
  by (simp add: stderrOf_def)

lemma foldl_handleEvent_data:
  assumes "\<forall>ev \<in> set events. isData ev"
  shows "concat (stdoutChunks (foldl handleEvent s events)) = concat (stdoutChunks s) @ stdoutOf events
   \<and> stderr (foldl handleEvent s events) = stderr s @ stderrOf events
   \<and> promise (foldl handleEvent s events) = promise s
   \<and> filter terminal (emitted (foldl handleEvent s events)) = filter terminal (emitted s)"
  using assms
proof (induction events arbitrary: s)
  case Nil
  show ?case by (simp add: stdoutOf_def stderrOf_def)
next
  case (Cons ev events)
  then have d: "isData ev" and r: "\<forall>ev \<in> set events. isData ev"
    by simp_all
  note h = handleEvent_data [OF d, of s]
  note ih = Cons.IH [OF r, of "handleEvent s ev"]
  show ?case
    unfolding foldl_Cons stdoutOf_Cons [of ev events] stderrOf_Cons [of ev events]
    using h ih by simp
qed

lemma onClose_zero:
  assumes "promise s = None"
  shows "promise (onClose (Some 0) s)
           = Some (Inr \<lparr>result_stderr = stderr s,
                        result_output = (if concat (stdoutChunks s) = [] then None
                                         else Some (concat (stdoutChunks s)))\<rparr>)"
    and "emitted (onClose (Some 0) s)
           = emitted s @ [End \<lparr>result_stderr = stderr s,
                               result_output = (if concat (stdoutChunks s) = [] then None
                                                else Some (concat (stdoutChunks s)))\<rparr>]"
  using assms by (simp_all add: onClose_def settle_def emit_def Let_def)

lemma onClose_nonzero:
  assumes "promise s = None" and "code \<noteq> Some 0"
  shows "promise (onClose code s) = Some (Inl (ExitedWithCode code))"
    and "emitted (onClose code s) = emitted s @ [ErrorEvent (ExitedWithCode code) (stderr s)]"
  using assms by (simp_all add: onClose_def settle_def emit_def Let_def)

lemma execute_data_then_close:
  assumes "\<forall>ev \<in> set events. isData ev"
  shows "execute x args (Some (events @ [Close code])) =
           onClose code (foldl handleEvent
             (emit (Start (resolvedFfmpegPath x @ '' '' @ joinWith '' '' args))
                \<lparr>stdoutChunks = [], stderr = [], stderrBuffer = [], emitted = [], promise = None\<rparr>)
             events)"
  by (simp add: execute_def Let_def handleEvent_def)

lemma settle_settled: "\<exists>r. promise (settle v s) = Some r"
  by (simp add: settle_def split: option.splits)

lemma onClose_settled: "\<exists>r. promise (onClose code s) = Some r"
proof (cases "code = Some 0")
  case True
  have "onClose code s = settle (Inr \<lparr>result_stderr = stderr s,
           result_output = (if length (concat (stdoutChunks s)) > 0
                            then Some (concat (stdoutChunks s)) else None)\<rparr>)
         (emit (End \<lparr>result_stderr = stderr s,
           result_output = (if length (concat (stdoutChunks s)) > 0
                            then Some (concat (stdoutChunks s)) else None)\<rparr>) s)"
    using True by (simp only: onClose_def Let_def if_True refl)
  then show ?thesis
    using settle_settled by simp
next
  case False
  have "onClose code s = settle (Inl (ExitedWithCode code))
         (emit (ErrorEvent (ExitedWithCode code) (stderr s)) s)"
    using False by (simp only: onClose_def Let_def if_False)
  then show ?thesis
    using settle_settled by simp
qed

lemma settle_kept: "promise s = Some v \<Longrightarrow> promise (settle w s) = Some v"
  by (simp add: settle_def)

lemma handleEvent_kept:
  assumes "promise s = Some v"
  shows "promise (handleEvent s ev) = Some v"
proof (cases ev)
  case (StdoutData chunk)
  with assms show ?thesis by (simp add: handleEvent_def)
next
  case (StderrData chunkStr)
  with assms show ?thesis by (simp add: handleEvent_def onStderrData_fields)
next
  case (Close code)
  have "promise (emit n s) = Some v" for n
    using assms by (simp add: emit_def)
  then show ?thesis
    unfolding Close by (simp add: handleEvent_def onClose_def Let_def settle_kept)
next
  case (ChildError msg)
  have "promise (emit n s) = Some v" for n
    using assms by (simp add: emit_def)
  then show ?thesis
    unfolding ChildError by (simp add: handleEvent_def settle_kept)
qed

lemma foldl_handleEvent_kept:
  "promise s = Some v \<Longrightarrow> promise (foldl handleEvent s events) = Some v"
  by (induction events arbitrary: s) (simp_all add: handleEvent_kept)

lemma execute_after_close:
  "promise (execute x args (Some (events @ [Close code] @ later)))
     = promise (execute x args (Some (events @ [Close code])))"
proof -
  let ?init = "emit (Start (resolvedFfmpegPath x @ '' '' @ joinWith '' '' args))
                \<lparr>stdoutChunks = [], stderr = [], stderrBuffer = [], emitted = [], promise = None\<rparr>"
  let ?closed = "onClose code (foldl handleEvent ?init events)"
  have c: "execute x args (Some (events @ [Close code])) = ?closed"
    by (simp add: execute_def Let_def handleEvent_def)
  have l: "execute x args (Some (events @ [Close code] @ later)) = foldl handleEvent ?closed later"
    by (simp add: execute_def Let_def handleEvent_def)
  obtain v where v: "promise ?closed = Some v"
    using onClose_settled by blast
  show ?thesis
    unfolding c l v by (rule foldl_handleEvent_kept [OF v])
qed

lemma executeFfmpeg_settles:
  assumes "\<And>args. \<exists>events code. spawn args = Some (events @ [Close code])"
  shows "executeFfmpeg x spawn fn \<noteq> None"
proof -
  have "promise (execute x args (spawn args)) \<noteq> None" for args
  proof -
    from assms [of args] obtain events code where s: "spawn args = Some (events @ [Close code])"
      by blast
    have "execute x args (Some (events @ [Close code])) =
            onClose code (foldl handleEvent
              (emit (Start (resolvedFfmpegPath x @ '' '' @ joinWith '' '' args))
                 \<lparr>stdoutChunks = [], stderr = [], stderrBuffer = [], emitted = [], promise = None\<rparr>)
              events)"
      by (simp add: execute_def Let_def handleEvent_def)
    then show ?thesis
      unfolding s using onClose_settled [of code] by auto
  qed
  then show ?thesis
    by (simp add: executeFfmpeg_def split: sum.splits)
qed

lemma execute_child_error:
  assumes "\<forall>ev \<in> set events. isData ev"
  shows "promise (execute x args (Some (events @ [ChildError msg] @ later)))
           = Some (Inl (ProcessError msg))"
proof -
  let ?init = "emit (Start (resolvedFfmpegPath x @ '' '' @ joinWith '' '' args))
                \<lparr>stdoutChunks = [], stderr = [], stderrBuffer = [], emitted = [], promise = None\<rparr>"
  let ?before = "foldl handleEvent ?init events"
  have "promise ?init = None"
    by (simp add: emit_def)
  with foldl_handleEvent_data [OF assms, of ?init] have "promise ?before = None"
    by simp
  then have "promise (handleEvent ?before (ChildError msg)) = Some (Inl (ProcessError msg))"
    by (simp add: handleEvent_def settle_def emit_def)
  then have "promise (foldl handleEvent (handleEvent ?before (ChildError msg)) later)
               = Some (Inl (ProcessError msg))"
    by (rule foldl_handleEvent_kept)
  then show ?thesis
    by (simp add: execute_def Let_def)
qed

subsection \<open>C3: the outcome of an execution\<close>

text \<open>
  C3, as stated: for every execution, exit code 0 produces a result, any other exit code
  makes the execution fail with an error that carries the accumulated stderr, and exactly
  one of the two occurs.

  Two parts do not hold.
  \<^item> The error of a non-zero exit is \<^verbatim>\<open>new Error(`ffmpeg exited with code ${code}`)\<close>: it
    holds the exit code and no stderr, so two runs that differ only in their stderr are
    rejected with the same error. The stderr is the second argument of the \<^verbatim>\<open>error\<close>
    notification only.
  \<^item> When the child emits \<^verbatim>\<open>error\<close> (a failed spawn or a failed kill) and then closes with
    exit code 0, the promise is rejected although the exit code is 0, and both \<^verbatim>\<open>error\<close>
    and \<^verbatim>\<open>end\<close> are emitted.
\<close>

theorem C3_counterexample:
  "promise (execute \<lparr>resolvedFfmpegPath = ''ffmpeg'', resolvedFfprobePath = ''ffprobe''\<rparr>
              [''-i'', ''in.mp4'', ''out.mp4''] (Some [StderrData ''first'', Close (Some 1)]))
     = Some (Inl (ExitedWithCode (Some 1)))
   \<and> promise (execute \<lparr>resolvedFfmpegPath = ''ffmpeg'', resolvedFfprobePath = ''ffprobe''\<rparr>
              [''-i'', ''in.mp4'', ''out.mp4''] (Some [StderrData ''second'', Close (Some 1)]))
     = Some (Inl (ExitedWithCode (Some 1)))
   \<and> promise (execute \<lparr>resolvedFfmpegPath = ''ffmpeg'', resolvedFfprobePath = ''ffprobe''\<rparr>
              [''-i'', ''in.mp4'', ''out.mp4''] (Some [ChildError ''kill EPERM'', Close (Some 0)]))
     = Some (Inl (ProcessError ''kill EPERM''))
   \<and> filter terminal
        (emitted (execute \<lparr>resolvedFfmpegPath = ''ffmpeg'', resolvedFfprobePath = ''ffprobe''\<rparr>
              [''-i'', ''in.mp4'', ''out.mp4''] (Some [ChildError ''kill EPERM'', Close (Some 0)])))
     = [ErrorEvent (ProcessError ''kill EPERM'') [],
        End \<lparr>result_stderr = [], result_output = None\<rparr>]"
  by (simp add: execute_def Let_def handleEvent_def onStderrData_def onClose_def settle_def
      emit_def terminal_def isEnd_def isErrorEvent_def)

text \<open>
  C3, amended: for every execution in which the child delivers only chunks of stdout and
  stderr before its first \<^verbatim>\<open>close\<close> or \<^verbatim>\<open>error\<close>:
  \<^item> a close with exit code 0 resolves the promise with a result that holds the
    accumulated stderr and, as its output, all the bytes written to stdout, or no output
    when no byte was written; \<^verbatim>\<open>end\<close> is emitted with that result, and \<^verbatim>\<open>error\<close> is not;
  \<^item> a close with any other exit code rejects the promise with an error that holds the
    exit code only; \<^verbatim>\<open>error\<close> is emitted once, with that error and the stderr accumulated
    up to then as its second argument, and \<^verbatim>\<open>end\<close> is not emitted;
  \<^item> an \<^verbatim>\<open>error\<close> of the child rejects the promise with that error, whatever exit code
    follows;
  \<^item> the promise is settled once: whatever the child delivers after the close, the
    promise keeps its settlement.
\<close>

theorem C3_execute_outcome:
  assumes "\<forall>ev \<in> set events. isData ev"
  shows "(code = Some 0 \<longrightarrow>
            promise (execute x args (Some (events @ [Close code])))
              = Some (Inr \<lparr>result_stderr = stderrOf events,
                           result_output = (if stdoutOf events = [] then None
                                            else Some (stdoutOf events))\<rparr>)
            \<and> filter terminal (emitted (execute x args (Some (events @ [Close code]))))
              = [End \<lparr>result_stderr = stderrOf events,
                       result_output = (if stdoutOf events = [] then None
                                        else Some (stdoutOf events))\<rparr>])
       \<and> (code \<noteq> Some 0 \<longrightarrow>
            promise (execute x args (Some (events @ [Close code])))
              = Some (Inl (ExitedWithCode code))
            \<and> filter terminal (emitted (execute x args (Some (events @ [Close code]))))
              = [ErrorEvent (ExitedWithCode code) (stderrOf events)])
       \<and> promise (execute x args (Some (events @ [Close code] @ later)))
           = promise (execute x args (Some (events @ [Close code])))
       \<and> promise (execute x args (Some (events @ [ChildError msg] @ later)))
           = Some (Inl (ProcessError msg))"
proof -
  let ?init = "emit (Start (resolvedFfmpegPath x @ '' '' @ joinWith '' '' args))
                \<lparr>stdoutChunks = [], stderr = [], stderrBuffer = [], emitted = [], promise = None\<rparr>"
  let ?s = "foldl handleEvent ?init events"
  have s0: "concat (stdoutChunks ?init) = []" "stderr ?init = []" "promise ?init = None"
    "filter terminal (emitted ?init) = []"
    by (simp_all add: emit_def terminal_def isEnd_def isErrorEvent_def)
  note f = foldl_handleEvent_data [OF assms, of ?init]
  have s: "concat (stdoutChunks ?s) = stdoutOf events" "stderr ?s = stderrOf events"
    "promise ?s = None" "filter terminal (emitted ?s) = []"
    using f by (simp_all only: s0 append_Nil)
  have e: "execute x args (Some (events @ [Close code])) = onClose code ?s"
    by (rule execute_data_then_close [OF assms])
  show ?thesis
  proof (intro conjI impI)
    assume c: "code = Some 0"
    show "promise (execute x args (Some (events @ [Close code])))
              = Some (Inr \<lparr>result_stderr = stderrOf events,
                           result_output = (if stdoutOf events = [] then None
                                            else Some (stdoutOf events))\<rparr>)"
      unfolding e unfolding c onClose_zero(1) [OF s(3)] s(1,2) ..
    show "filter terminal (emitted (execute x args (Some (events @ [Close code]))))
              = [End \<lparr>result_stderr = stderrOf events,
                       result_output = (if stdoutOf events = [] then None
                                        else Some (stdoutOf events))\<rparr>]"
      unfolding e unfolding c onClose_zero(2) [OF s(3)] s(1,2) filter_append s(4)
      by (simp add: terminal_def isEnd_def)
  next
    assume c: "code \<noteq> Some 0"
    show "promise (execute x args (Some (events @ [Close code])))
              = Some (Inl (ExitedWithCode code))"
      unfolding e onClose_nonzero(1) [OF s(3) c] ..
    show "filter terminal (emitted (execute x args (Some (events @ [Close code]))))
              = [ErrorEvent (ExitedWithCode code) (stderrOf events)]"
      unfolding e onClose_nonzero(2) [OF s(3) c] s(2) filter_append s(4)
      by (simp add: terminal_def isErrorEvent_def)
  next
    show "promise (execute x args (Some (events @ [Close code] @ later)))
           = promise (execute x args (Some (events @ [Close code])))"
      by (rule execute_after_close)
  next
    show "promise (execute x args (Some (events @ [ChildError msg] @ later)))
           = Some (Inl (ProcessError msg))"
      by (rule execute_child_error [OF assms])
  qed
qed

theorem C3_execute_outcome_witness:
  "promise (execute \<lparr>resolvedFfmpegPath = ''ffmpeg'', resolvedFfprobePath = ''ffprobe''\<rparr>
              [''-i'', ''in.mp4'', ''-f'', ''image2pipe'', ''pipe:1'']
              (Some [StdoutData (replicate 500 0), Close (Some 0)]))
     = Some (Inr \<lparr>result_stderr = [], result_output = Some (replicate 500 0)\<rparr>)
   \<and> length (replicate 500 (0 :: 8 word)) = 500
   \<and> promise (execute \<lparr>resolvedFfmpegPath = ''ffmpeg'', resolvedFfprobePath = ''ffprobe''\<rparr>
              [''-i'', ''in.mp4'', ''out.mp4''] (Some [Close (Some 0)]))
     = Some (Inr \<lparr>result_stderr = [], result_output = None\<rparr>)
   \<and> promise (execute \<lparr>resolvedFfmpegPath = ''ffmpeg'', resolvedFfprobePath = ''ffprobe''\<rparr>
              [''-i'', ''in.mp4'', ''out.mp4''] (Some [StderrData ''no such file'', Close (Some 1)]))
     = Some (Inl (ExitedWithCode (Some 1)))
   \<and> filter terminal
        (emitted (execute \<lparr>resolvedFfmpegPath = ''ffmpeg'', resolvedFfprobePath = ''ffprobe''\<rparr>
              [''-i'', ''in.mp4'', ''out.mp4''] (Some [StderrData ''no such file'', Close (Some 1)])))
     = [ErrorEvent (ExitedWithCode (Some 1)) ''no such file'']"
proof -
  let ?x = "\<lparr>resolvedFfmpegPath = ''ffmpeg'', resolvedFfprobePath = ''ffprobe''\<rparr>"
  have a: "\<forall>ev \<in> set [StdoutData (replicate 500 0)]. isData ev"
    and b: "\<forall>ev \<in> set []. isData ev"
    and c: "\<forall>ev \<in> set [StderrData ''no such file'']. isData ev"
    by (simp_all add: isData_def)
  have out: "stdoutOf [StdoutData (replicate 500 0)] = replicate 500 0"
    "stderrOf [StdoutData (replicate 500 0)] = []"
    "stdoutOf [] = []" "stderrOf [] = []"
    "stderrOf [StderrData ''no such file''] = ''no such file''"
    by (simp_all add: stdoutOf_def stderrOf_def)
  have ne: "replicate 500 (0 :: 8 word) \<noteq> []"
    by simp
  from C3_execute_outcome [OF a, of "Some 0" ?x "[''-i'', ''in.mp4'', ''-f'', ''image2pipe'', ''pipe:1'']"]
    C3_execute_outcome [OF b, of "Some 0" ?x "[''-i'', ''in.mp4'', ''out.mp4'']"]
    C3_execute_outcome [OF c, of "Some 1" ?x "[''-i'', ''in.mp4'', ''out.mp4'']"]
  show ?thesis
    unfolding out using ne by simp
qed

section \<open>Facts about frame extraction\<close>

lemma map_zip_index:
  "map (\<lambda>(a, i). h a i) (zip xs [0..<length xs]) = map (\<lambda>i. h (xs ! i) i) [0..<length xs]"
  by (rule nth_equalityI) simp_all

lemma compact_slots:
  "map the (filter (\<lambda>b. b \<noteq> None) (map f xs)) = List.map_filter f xs"
  by (induction xs) (auto simp: List.map_filter_simps split: option.splits)

lemma frameSlot_cases:
  "frameSlot (Inl err) = None"
  "frameSlot (Inr \<lparr>result_stderr = se, result_output = None\<rparr>) = None"
  "frameSlot (Inr \<lparr>result_stderr = se, result_output = Some []\<rparr>) = None"
  "out \<noteq> [] \<Longrightarrow> frameSlot (Inr \<lparr>result_stderr = se, result_output = Some out\<rparr>) = Some out"
  by (simp_all add: frameSlot_def)

lemma extract_frames_initialized:
  assumes "validateInitialized e = Inr ()"
    and "calculateFrameIndices e options = Some frameIndices"
  shows "extract_frames x toFixed6 spawn e options =
           (if \<forall>i < length frameIndices.
                  executeFfmpeg x (spawn i) (frameCommand toFixed6 e (frameIndices ! i)) \<noteq> None
            then Some (Inr (List.map_filter
                   (\<lambda>i. frameSlot (the (executeFfmpeg x (spawn i)
                                           (frameCommand toFixed6 e (frameIndices ! i)))))
                   [0..<length frameIndices]))
            else None)"
proof -
  let ?p = "\<lambda>i. executeFfmpeg x (spawn i) (frameCommand toFixed6 e (frameIndices ! i))"
  let ?promises = "map (\<lambda>i. map_option frameSlot (?p i)) [0..<length frameIndices]"
  have z: "map (\<lambda>(frameIndex, i).
                  map_option frameSlot (executeFfmpeg x (spawn i) (frameCommand toFixed6 e frameIndex)))
             (zip frameIndices [0..<length frameIndices]) = ?promises"
    by (rule map_zip_index)
  have all: "list_all (\<lambda>p. p \<noteq> None) ?promises = (\<forall>i < length frameIndices. ?p i \<noteq> None)"
    by (auto simp: list_all_iff)
  have vals: "map the ?promises = map (\<lambda>i. frameSlot (the (?p i))) [0..<length frameIndices]"
    if "\<forall>i < length frameIndices. ?p i \<noteq> None"
    using that by (auto simp: option.map_sel)
  have "extract_frames x toFixed6 spawn e options =
          (if list_all (\<lambda>p. p \<noteq> None) ?promises
           then Some (Inr (map the (filter (\<lambda>buffer. buffer \<noteq> None) (map the ?promises))))
           else None)"
    by (simp only: extract_frames_def assms validateOptions_def sum.case option.case Let_def z)
  then have main: "extract_frames x toFixed6 spawn e options =
          (if \<forall>i < length frameIndices. ?p i \<noteq> None
           then Some (Inr (map the (filter (\<lambda>buffer. buffer \<noteq> None) (map the ?promises))))
           else None)"
    by (simp only: all)
  show ?thesis
  proof (cases "\<forall>i < length frameIndices. ?p i \<noteq> None")
    case True
    have "map the (filter (\<lambda>buffer. buffer \<noteq> None) (map the ?promises))
            = List.map_filter (\<lambda>i. frameSlot (the (?p i))) [0..<length frameIndices]"
      by (simp only: vals [OF True] compact_slots)
    with main True show ?thesis
      by (simp only: if_True)
  next
    case False
    with main show ?thesis
      by (simp only: if_False)
  qed
qed

subsection \<open>C8: a failed frame does not fail the batch\<close>

text \<open>
  C8: for an initialized extractor whose frame indices have been computed,
  \<^item> a frame whose invocation fails, or succeeds with no output or an empty output, gives
    a \<^verbatim>\<open>null\<close> slot, and a frame with a non-empty output gives that buffer;
  \<^item> once every frame's invocation has settled, the batch returns the non-null slots, in
    the order of dispatch;
  \<^item> the batch never fails, whatever the frames' invocations do.
\<close>

theorem C8_batch_never_fails:
  assumes "validateInitialized e = Inr ()"
    and "calculateFrameIndices e options = Some frameIndices"
  shows "extract_frames x toFixed6 spawn e options \<noteq> Some (Inl err)
    \<and> ((\<forall>i < length frameIndices.
           executeFfmpeg x (spawn i) (frameCommand toFixed6 e (frameIndices ! i)) \<noteq> None) \<longrightarrow>
         extract_frames x toFixed6 spawn e options =
           Some (Inr (List.map_filter
                   (\<lambda>i. frameSlot (the (executeFfmpeg x (spawn i)
                                           (frameCommand toFixed6 e (frameIndices ! i)))))
                   [0..<length frameIndices])))
    \<and> frameSlot (Inl failure) = None
    \<and> frameSlot (Inr \<lparr>result_stderr = se, result_output = None\<rparr>) = None
    \<and> frameSlot (Inr \<lparr>result_stderr = se, result_output = Some []\<rparr>) = None
    \<and> (out \<noteq> [] \<longrightarrow> frameSlot (Inr \<lparr>result_stderr = se, result_output = Some out\<rparr>) = Some out)"
  unfolding extract_frames_initialized [OF assms]
  by (simp add: frameSlot_cases)

theorem C8_batch_never_fails_witness:
  "extract_frames \<lparr>resolvedFfmpegPath = ''ffmpeg'', resolvedFfprobePath = ''ffprobe''\<rparr>
     (\<lambda>r. ''0.000000'')
     (\<lambda>i args. Some (if i = 0 then [StdoutData [7], Close (Some 0)]
                      else if i = 1 then [StderrData ''boom'', Close (Some 1)]
                      else [StdoutData [9, 9], Close (Some 0)]))
     demoExtractor \<lparr>totalFrames_opt = Some 3, fps_opt = None\<rparr>
   = Some (Inr [[7], [9, 9]])"
proof -
  let ?x = "\<lparr>resolvedFfmpegPath = ''ffmpeg'', resolvedFfprobePath = ''ffprobe''\<rparr>"
  let ?spawn = "\<lambda>(i::nat) (args::string list).
                  Some (if i = 0 then [StdoutData [7 :: 8 word], Close (Some 0)]
                        else if i = 1 then [StderrData ''boom'', Close (Some 1)]
                        else [StdoutData [9, 9], Close (Some 0)])"
  let ?opts = "\<lparr>totalFrames_opt = Some 3, fps_opt = None\<rparr>"
  note defs = executeFfmpeg_def frameCommand_def Let_def finalArgs_def buildArgs_cases
    hasFormat_butlast addInputOption_def addOutputOption_def outputFormat_def input_def
    pushOption_def newCommand_def demoExtractor_def execute_def handleEvent_def onClose_def
    settle_def emit_def onStderrData_def
  have v: "validateInitialized demoExtractor = Inr ()"
    by (simp add: validateInitialized_def demoExtractor_def)
  have c: "calculateFrameIndices demoExtractor ?opts = Some [3, 10, 16]"
    by code_simp
  have s: "\<forall>i < length [3, 10, 16 :: int].
             executeFfmpeg ?x (?spawn i) (frameCommand (\<lambda>r. ''0.000000'') demoExtractor ([3, 10, 16] ! i))
               \<noteq> None"
    by (simp add: defs All_less_Suc split: option.splits)
  have m: "List.map_filter
             (\<lambda>i. frameSlot (the (executeFfmpeg ?x (?spawn i)
                     (frameCommand (\<lambda>r. ''0.000000'') demoExtractor ([3, 10, 16] ! i)))))
             [0..<length [3, 10, 16 :: int]] = [[7], [9, 9]]"
    by (simp add: defs List.map_filter_simps upt_rec frameSlot_def split: option.splits)
  from C8_batch_never_fails [OF v c, of ?x "\<lambda>r. ''0.000000''" ?spawn]
  have "(\<forall>i < length [3, 10, 16 :: int].
           executeFfmpeg ?x (?spawn i) (frameCommand (\<lambda>r. ''0.000000'') demoExtractor ([3, 10, 16] ! i))
             \<noteq> None) \<longrightarrow>
        extract_frames ?x (\<lambda>r. ''0.000000'') ?spawn demoExtractor ?opts =
           Some (Inr (List.map_filter
             (\<lambda>i. frameSlot (the (executeFfmpeg ?x (?spawn i)
                     (frameCommand (\<lambda>r. ''0.000000'') demoExtractor ([3, 10, 16] ! i)))))
             [0..<length [3, 10, 16 :: int]]))"
    by (rule conjunct1 [OF conjunct2])
  from this [THEN mp, OF s] show ?thesis
    unfolding m .
qed

text \<open>
  When every spawned child closes, every frame's invocation settles, so the batch
  returns.
\<close>

lemma extract_frames_returns:
  assumes "validateInitialized e = Inr ()"
    and "calculateFrameIndices e options = Some frameIndices"
    and "\<And>i args. \<exists>events code. spawn i args = Some (events @ [Close code])"
  shows "\<exists>buffers. extract_frames x toFixed6 spawn e options = Some (Inr buffers)
           \<and> length buffers \<le> length frameIndices"
proof -
  have s: "\<forall>i < length frameIndices.
             executeFfmpeg x (spawn i) (frameCommand toFixed6 e (frameIndices ! i)) \<noteq> None"
    using executeFfmpeg_settles [of "spawn i" for i] assms(3) by blast
  have "length (List.map_filter f xs) \<le> length xs" for f :: "nat \<Rightarrow> buffer option" and xs
    by (simp add: List.map_filter_def)
  then show ?thesis
    unfolding extract_frames_initialized [OF assms(1,2)] using s
    by (simp del: upt.simps) (metis length_upt minus_nat.diff_0)
qed

text \<open>An extractor that was never initialized fails fast, before any frame is dispatched.\<close>

lemma extract_frames_uninitialized:
  "extract_frames x toFixed6 spawn (newExtractor path) options = Some (Inl NotInitialized)"
  by (simp add: extract_frames_def validateInitialized_def newExtractor_def)

end
